theory Spec2Isabelle
  imports Complex_Main
begin

section \<open>Calendar dates (Python's \<open>datetime.date\<close>)\<close>

text \<open>
  The views, forms and models compare dates, subtract them and build new ones with
  \<open>date(y, m, d)\<close>. The constructor raises \<open>ValueError\<close> for a day that the month
  of that year does not have; the model keeps that branch.
\<close>

datatype error =
    ValueError
  | TypeError
  | AttributeError
  | ValidationError
  | IntegrityError
  | DoesNotExist
  | MultipleObjectsReturned

record date =
  year :: int
  month :: int
  day :: int

definition is_leap :: "int \<Rightarrow> bool" where
  "is_leap y = (if y mod 4 = 0 then (if y mod 100 = 0 then y mod 400 = 0 else True) else False)"

definition days_in_month :: "int \<Rightarrow> int \<Rightarrow> int" where
  "days_in_month y m =
     (if m = 2 then (if is_leap y then 29 else 28)
      else if m = 4 \<or> m = 6 \<or> m = 9 \<or> m = 11 then 30
      else 31)"

text \<open>\<open>date(y, m, d)\<close>: years 1..9999, months 1..12, days 1..days_in_month.\<close>

definition date_new :: "int \<Rightarrow> int \<Rightarrow> int \<Rightarrow> error + date" where
  "date_new y m d =
     (if 1 \<le> y \<and> y \<le> 9999 \<and> 1 \<le> m \<and> m \<le> 12 \<and> 1 \<le> d \<and> d \<le> days_in_month y m
      then Inr \<lparr>year = y, month = m, day = d\<rparr>
      else Inl ValueError)"

definition valid_date :: "date \<Rightarrow> bool" where
  "valid_date d = (date_new (year d) (month d) (day d) = Inr d)"

text \<open>\<open>a < b\<close> on dates: year, then month, then day.\<close>

definition date_less :: "date \<Rightarrow> date \<Rightarrow> bool" where
  "date_less a b =
     (if year a = year b
      then (if month a = month b then day a < day b else month a < month b)
      else year a < year b)"

definition days_before_year :: "int \<Rightarrow> int" where
  "days_before_year y = (y - 1) * 365 + (y - 1) div 4 - (y - 1) div 100 + (y - 1) div 400"

definition days_before_month :: "int \<Rightarrow> int \<Rightarrow> int" where
  "days_before_month y m = sum_list (map (days_in_month y) [1..m - 1])"

definition toordinal :: "date \<Rightarrow> int" where
  "toordinal d = days_before_year (year d) + days_before_month (year d) (month d) + day d"

text \<open>\<open>(a - b).days\<close>\<close>

definition days_between :: "date \<Rightarrow> date \<Rightarrow> int" where
  "days_between a b = toordinal a - toordinal b"

section \<open>Accounts (\<open>users/models.py\<close>)\<close>

text \<open>
  The request's user is \<open>None\<close> for Django's \<open>AnonymousUser\<close> and \<open>Some u\<close> for an
  authenticated account. Group memberships are the names of the account's groups.
\<close>

record user =
  uid :: nat
  u_email :: string
  u_last_name :: string
  u_first_name :: string
  u_birth_date :: "date option"
  u_gender :: string
  u_phone :: "string option"
  is_superuser :: bool
  groups :: "string list"

definition is_administrator :: "user \<Rightarrow> bool" where
  "is_administrator u = (''administrators'' \<in> set (groups u) \<or> is_superuser u)"

definition is_moderator :: "user \<Rightarrow> bool" where
  "is_moderator u = (''moderators'' \<in> set (groups u))"

definition is_regular_user :: "user \<Rightarrow> bool" where
  "is_regular_user u = (\<not> (is_administrator u \<or> is_moderator u))"

section \<open>Patients (\<open>medical_lab/models.py\<close>)\<close>

text \<open>
  A Python attribute holds whatever was assigned to it: Django converts a value to the
  field's type when it reads a row, not when a model instance is built. The
  \<open>birth_date\<close> of an instance is therefore a date, a string or \<open>None\<close>.
\<close>

datatype date_attr = DNone | DDate date | DStr string

record patient =
  p_id :: "nat option"
  p_last_name :: string
  p_first_name :: string
  p_middle_name :: "string option"
  p_birth_date :: date_attr
  p_gender :: string
  p_phone :: "string option"
  p_email :: "string option"
  p_created_by :: nat

text \<open>
  \<open>Patient.age\<close>, with \<open>date.today()\<close> as the parameter \<open>today\<close>. The result is
  \<open>Inr None\<close> where the property returns \<open>None\<close>, and \<open>Inl e\<close> where it raises.
\<close>

definition age :: "date \<Rightarrow> patient \<Rightarrow> error + int option" where
  "age today self =
     (case p_birth_date self of
        DNone \<Rightarrow> Inr None
      | DStr s \<Rightarrow> (if s = [] then Inr None else Inl AttributeError)
      | DDate b \<Rightarrow>
          (let age0 = year today - year b in
           case date_new (year today) (month b) (day b) of
             Inl e \<Rightarrow> Inl e
           | Inr birthday \<Rightarrow>
               Inr (Some (if date_less today birthday then age0 - 1 else age0))))"

section \<open>Analyses (\<open>medical_lab/models.py\<close>)\<close>

text \<open>
  \<open>timezone.now()\<close> is a parameter \<open>now\<close> of every operation that reads the clock.
  The fields \<open>created_at\<close>, \<open>updated_at\<close>, \<open>address\<close>, \<open>medical_history\<close>,
  \<open>result_values\<close> and \<open>normal_range\<close> play no part in the operations below and are
  left out of the records.
\<close>

type_synonym timestamp = nat

record analysis =
  a_pk :: "nat option"
  a_patient :: nat
  a_analysis_type :: nat
  a_status :: string
  a_collection_date :: "timestamp option"
  a_completion_date :: "timestamp option"
  a_result :: string
  a_notes :: string
  a_lab_technician :: "nat option"

record analysis_type =
  t_id :: nat
  t_name :: string
  t_is_active :: bool

text \<open>The keys of \<open>Analysis.STATUS_CHOICES\<close>, in the order of the source.\<close>

definition STATUS_CHOICES :: "string list" where
  "STATUS_CHOICES = [''registered'', ''in_progress'', ''completed'', ''cancelled'']"

section \<open>The store\<close>

record world =
  users :: "user list"
  auth_groups :: "string list"
  patients :: "patient list"
  analysis_types :: "analysis_type list"
  analyses :: "analysis list"
  next_user_id :: nat
  next_patient_id :: nat
  next_analysis_id :: nat

definition get_analysis :: "nat \<Rightarrow> world \<Rightarrow> analysis option" where
  "get_analysis k w = find (\<lambda>a. a_pk a = Some k) (analyses w)"

definition get_patient :: "nat \<Rightarrow> world \<Rightarrow> patient option" where
  "get_patient k w = find (\<lambda>p. p_id p = Some k) (patients w)"

text \<open>
  \<open>Model.save\<close> of the framework: a row with the instance's primary key is replaced,
  an instance without a stored row is inserted, and an instance without a primary key
  gets the next one.
\<close>

definition save_analysis_row :: "analysis \<Rightarrow> world \<Rightarrow> analysis \<times> world" where
  "save_analysis_row self w =
     (case a_pk self of
        None \<Rightarrow>
          (let k = next_analysis_id w; row = self\<lparr>a_pk := Some k\<rparr>
           in (row, w\<lparr>analyses := analyses w @ [row], next_analysis_id := Suc k\<rparr>))
      | Some k \<Rightarrow>
          (if list_ex (\<lambda>a. a_pk a = Some k) (analyses w)
           then (self, w\<lparr>analyses := map (\<lambda>a. if a_pk a = Some k then self else a) (analyses w)\<rparr>)
           else (self, w\<lparr>analyses := analyses w @ [self]\<rparr>)))"

definition save_patient_row :: "patient \<Rightarrow> world \<Rightarrow> patient \<times> world" where
  "save_patient_row self w =
     (case p_id self of
        None \<Rightarrow>
          (let k = next_patient_id w; row = self\<lparr>p_id := Some k\<rparr>
           in (row, w\<lparr>patients := patients w @ [row], next_patient_id := Suc k\<rparr>))
      | Some k \<Rightarrow>
          (if list_ex (\<lambda>p. p_id p = Some k) (patients w)
           then (self, w\<lparr>patients := map (\<lambda>p. if p_id p = Some k then self else p) (patients w)\<rparr>)
           else (self, w\<lparr>patients := patients w @ [self]\<rparr>)))"

text \<open>
  \<open>Patient.save\<close>. The check \<open>self.birth_date > date.today()\<close> compares whatever the
  attribute holds with a date: a non-empty string against a date raises \<open>TypeError\<close>.
  A falsy value skips the check and reaches the store, whose column is a date that is
  not null: \<open>None\<close> violates the constraint and the empty string is no date.
\<close>

definition Patient_save :: "date \<Rightarrow> patient \<Rightarrow> world \<Rightarrow> error + patient \<times> world" where
  "Patient_save today self w =
     (case p_birth_date self of
        DDate b \<Rightarrow> (if date_less today b then Inl ValueError else Inr (save_patient_row self w))
      | DStr s \<Rightarrow> (if s \<noteq> [] then Inl TypeError else Inl ValidationError)
      | DNone \<Rightarrow> Inl IntegrityError)"

text \<open>
  \<open>instance.send_completion_email()\<close>. Class \<open>Analysis\<close> derives from
  \<open>models.Model\<close> alone and defines \<open>__str__\<close> and \<open>save\<close>; neither it nor any
  other source file defines \<open>send_completion_email\<close>, so the attribute lookup raises
  \<open>AttributeError\<close> before anything is sent.
\<close>

definition send_completion_email :: "analysis \<Rightarrow> error + unit" where
  "send_completion_email self = Inl AttributeError"

text \<open>
  The \<open>pre_save\<close> receiver of \<open>signals.py\<close>. It is taken as connected to the
  signal: the module that loads \<open>signals.py\<close> is not among the files at hand, and the
  spec describes the notification as fired from this pre-save observer.
  \<open>not instance.pk\<close> holds for \<open>None\<close> and for \<open>0\<close>; a missing stored row is
  ignored (\<open>except Analysis.DoesNotExist\<close>); any other exception leaves the receiver.
\<close>

definition handle_analysis_status_change ::
  "timestamp \<Rightarrow> analysis \<Rightarrow> world \<Rightarrow> error + analysis" where
  "handle_analysis_status_change now instance w =
     (case a_pk instance of
        None \<Rightarrow> Inr instance
      | Some k \<Rightarrow>
          (if k = 0 then Inr instance
           else
             (case get_analysis k w of
                None \<Rightarrow> Inr instance
              | Some old_instance \<Rightarrow>
                  (if a_status old_instance \<noteq> ''completed'' \<and> a_status instance = ''completed''
                   then
                     (let instance1 =
                        (if a_completion_date instance = None
                         then instance\<lparr>a_completion_date := Some now\<rparr> else instance)
                      in case send_completion_email instance1 of
                           Inl e \<Rightarrow> Inl e
                         | Inr u \<Rightarrow> Inr instance1)
                   else Inr instance))))"

text \<open>
  \<open>Analysis.save\<close>: the method's own completion-date rule, then the framework's save,
  which sends \<open>pre_save\<close> to the receiver above before it writes the row. An exception
  in the receiver leaves \<open>save\<close> before the row is written.
\<close>

definition Analysis_save :: "timestamp \<Rightarrow> analysis \<Rightarrow> world \<Rightarrow> error + analysis \<times> world" where
  "Analysis_save now self w =
     (let self1 =
        (if a_status self = ''completed'' \<and> a_completion_date self = None
         then self\<lparr>a_completion_date := Some now\<rparr> else self)
      in case handle_analysis_status_change now self1 w of
           Inl e \<Rightarrow> Inl e
         | Inr self2 \<Rightarrow> Inr (save_analysis_row self2 w))"

section \<open>Permission classes (\<open>medical_lab/views.py\<close>)\<close>

datatype permission =
    IsAdministrator
  | IsModerator
  | IsRegularUser
  | IsAdministratorOrModerator
  | IsOwnerOrAdministratorOrModerator
  | OR permission permission

text \<open>
  \<open>has_permission\<close> of each class; \<open>IsOwnerOrAdministratorOrModerator\<close> defines only
  \<open>has_object_permission\<close> and inherits the base class's \<open>has_permission\<close>, which
  returns \<open>True\<close>. \<open>A | B\<close> grants when either operand does.
\<close>

fun has_permission :: "permission \<Rightarrow> user option \<Rightarrow> bool" where
  "has_permission IsAdministrator ru =
     (case ru of None \<Rightarrow> False | Some u \<Rightarrow> is_administrator u)"
| "has_permission IsModerator ru =
     (case ru of None \<Rightarrow> False | Some u \<Rightarrow> is_moderator u)"
| "has_permission IsRegularUser ru =
     (case ru of None \<Rightarrow> False | Some u \<Rightarrow> is_regular_user u)"
| "has_permission IsAdministratorOrModerator ru =
     (case ru of None \<Rightarrow> False | Some u \<Rightarrow> is_administrator u \<or> is_moderator u)"
| "has_permission IsOwnerOrAdministratorOrModerator ru = True"
| "has_permission (OR a b) ru = (has_permission a ru \<or> has_permission b ru)"

definition check_permissions :: "permission list \<Rightarrow> user option \<Rightarrow> bool" where
  "check_permissions perms ru = list_all (\<lambda>p. has_permission p ru) perms"

text \<open>
  \<open>get_permissions\<close> of the two view sets chooses by \<open>self.action\<close>. Both view sets
  override the method, and the override never reads \<open>self.permission_classes\<close>, which
  is where the \<open>@action(permission_classes=...)\<close> decorator stores its argument: an
  extra action such as \<open>set_status\<close> is none of the named actions and takes the last
  branch.
\<close>

definition PatientViewSet_get_permissions :: "string \<Rightarrow> permission list" where
  "PatientViewSet_get_permissions action =
     (if action \<in> set [''list'', ''retrieve''] then [OR IsAdministratorOrModerator IsRegularUser]
      else if action \<in> set [''create''] then [IsModerator]
      else if action \<in> set [''update'', ''partial_update''] then [IsOwnerOrAdministratorOrModerator]
      else [IsAdministrator])"

definition AnalysisViewSet_get_permissions :: "string \<Rightarrow> permission list" where
  "AnalysisViewSet_get_permissions action =
     (if action \<in> set [''list'', ''retrieve''] then [OR IsAdministratorOrModerator IsRegularUser]
      else if action \<in> set [''create''] then [OR IsModerator IsRegularUser]
      else if action \<in> set [''update'', ''partial_update''] then [IsOwnerOrAdministratorOrModerator]
      else [IsAdministrator])"

section \<open>List scoping (\<open>get_queryset\<close>)\<close>

definition PatientViewSet_get_queryset :: "user option \<Rightarrow> world \<Rightarrow> patient list" where
  "PatientViewSet_get_queryset ru w =
     (case ru of
        None \<Rightarrow> []
      | Some u \<Rightarrow>
          (if is_administrator u then patients w
           else if is_moderator u then patients w
           else if is_regular_user u then filter (\<lambda>p. p_created_by p = uid u) (patients w)
           else []))"

text \<open>\<open>patient__created_by=user\<close> joins each analysis with its patient's row.\<close>

definition patient_created_by_is :: "nat \<Rightarrow> world \<Rightarrow> analysis \<Rightarrow> bool" where
  "patient_created_by_is k w a =
     (case get_patient (a_patient a) w of None \<Rightarrow> False | Some p \<Rightarrow> p_created_by p = k)"

definition AnalysisViewSet_get_queryset :: "user option \<Rightarrow> world \<Rightarrow> analysis list" where
  "AnalysisViewSet_get_queryset ru w =
     (case ru of
        None \<Rightarrow> []
      | Some u \<Rightarrow>
          (if is_administrator u then analyses w
           else if is_moderator u then analyses w
           else if is_regular_user u then filter (patient_created_by_is (uid u) w) (analyses w)
           else []))"

section \<open>\<open>AnalysisViewSet.set_status\<close>\<close>

datatype response =
    Response analysis
  | HTTP_400_BAD_REQUEST
  | HTTP_403_FORBIDDEN
  | HTTP_404_NOT_FOUND
  | Raised error

text \<open>
  A value of the request body. \<open>request.data.get('status')\<close> is \<open>None\<close> when the
  key is absent and when its value is \<open>null\<close>: both are \<open>JNull\<close>. A form-encoded body
  gives a string.
\<close>

datatype json_value =
    JNull
  | JBool bool
  | JNumber int
  | JString string
  | JArray "json_value list"
  | JObject "(string \<times> json_value) list"

text \<open>
  The request passes the permission check, then \<open>get_object\<close> looks the primary key up
  in the caller's queryset, then the body runs. \<open>new_status not in dict(...)\<close> hashes
  the value: a list or an object cannot be hashed and the test raises \<open>TypeError\<close>; any
  other value that is not a key gives the 400 answer. An exception that escapes the view
  leaves the store as it was: the row is written last.
\<close>

definition set_status ::
  "timestamp \<Rightarrow> user option \<Rightarrow> nat \<Rightarrow> json_value \<Rightarrow> world \<Rightarrow> response \<times> world" where
  "set_status now ru pk new_status w =
     (if \<not> check_permissions (AnalysisViewSet_get_permissions ''set_status'') ru
      then (HTTP_403_FORBIDDEN, w)
      else
        (case find (\<lambda>a. a_pk a = Some pk) (AnalysisViewSet_get_queryset ru w) of
           None \<Rightarrow> (HTTP_404_NOT_FOUND, w)
         | Some analysis \<Rightarrow>
             (case new_status of
                JArray xs \<Rightarrow> (Raised TypeError, w)
              | JObject kvs \<Rightarrow> (Raised TypeError, w)
              | JString s \<Rightarrow>
                  (if s \<notin> set STATUS_CHOICES then (HTTP_400_BAD_REQUEST, w)
                   else
                     (case Analysis_save now (analysis\<lparr>a_status := s\<rparr>) w of
                        Inl e \<Rightarrow> (Raised e, w)
                      | Inr (saved, w1) \<Rightarrow> (Response saved, w1)))
              | JNull \<Rightarrow> (HTTP_400_BAD_REQUEST, w)
              | JBool b \<Rightarrow> (HTTP_400_BAD_REQUEST, w)
              | JNumber n \<Rightarrow> (HTTP_400_BAD_REQUEST, w))))"



section \<open>An abbreviation for the proofs\<close>

text \<open>The instance as the first step of \<open>Analysis.save\<close> leaves it.\<close>

definition stamped :: "timestamp \<Rightarrow> analysis \<Rightarrow> analysis" where
  "stamped now self =
     (if a_status self = ''completed'' \<and> a_completion_date self = None
      then self\<lparr>a_completion_date := Some now\<rparr> else self)"

section \<open>Birth-date validation (\<open>PatientForm.clean_birth_date\<close>)\<close>

text \<open>
  \<open>(date.today() - birth_date).days / 365.25 > 150\<close>, on rationals: \<open>365.25\<close> and the
  quotients near 150 are far enough from the bound that the floating-point comparison agrees
  with the exact one (the day count is an integer and \<open>150 * 365.25 = 54787.5\<close>).
\<close>

definition clean_birth_date :: "date \<Rightarrow> date option \<Rightarrow> error + date option" where
  "clean_birth_date today birth_date =
     (case birth_date of
        None \<Rightarrow> Inr None
      | Some b \<Rightarrow>
          (if date_less today b then Inl ValidationError
           else if (of_int (days_between today b) :: rat) / (36525 / 100) > 150
             then Inl ValidationError
           else Inr (Some b)))"

section \<open>Creating a patient with an account (\<open>PatientWithUserForm\<close>, \<open>create_patient\<close>)\<close>

text \<open>
  The form's values after the framework's field validation (required fields, lengths,
  choices, a well-formed date and e-mail address).
\<close>

record patient_with_user_form =
  f_last_name :: string
  f_first_name :: string
  f_middle_name :: "string option"
  f_birth_date :: date
  f_gender :: string
  f_phone :: "string option"
  f_email :: string
  f_password1 :: string
  f_password2 :: string

definition clean_password1 :: "string \<Rightarrow> error + string" where
  "clean_password1 password1 =
     (if password1 \<noteq> [] \<and> length password1 < 8 then Inl ValidationError else Inr password1)"

definition PatientWithUserForm_clean ::
  "patient_with_user_form \<Rightarrow> world \<Rightarrow> error + patient_with_user_form" where
  "PatientWithUserForm_clean f w =
     (if f_password1 f \<noteq> [] \<and> f_password2 f \<noteq> [] \<and> f_password1 f \<noteq> f_password2 f
        then Inl ValidationError
      else if f_email f \<noteq> [] \<and> list_ex (\<lambda>u. u_email u = f_email f) (users w)
        then Inl ValidationError
      else Inr f)"

definition PatientWithUserForm_is_valid :: "patient_with_user_form \<Rightarrow> world \<Rightarrow> bool" where
  "PatientWithUserForm_is_valid f w =
     (\<not> isl (clean_password1 (f_password1 f)) \<and> \<not> isl (PatientWithUserForm_clean f w))"

text \<open>
  Modelled from the spec: \<open>CustomUserManager.create_user\<close> (\<open>users/managers.py\<close>) is
  not in the files at hand. An Account has a unique email and its role is derived from the
  superuser flag and the group memberships; the new account gets the next identifier, the
  given profile fields, no superuser flag and no group.
\<close>

definition create_user ::
  "string \<Rightarrow> string \<Rightarrow> string \<Rightarrow> date option \<Rightarrow> string \<Rightarrow> string option \<Rightarrow> world
     \<Rightarrow> error + user \<times> world" where
  "create_user email first_name last_name birth_date gender phone w =
     (if list_ex (\<lambda>u. u_email u = email) (users w) then Inl IntegrityError
      else
        (let u = \<lparr>uid = next_user_id w, u_email = email, u_last_name = last_name,
                  u_first_name = first_name, u_birth_date = birth_date, u_gender = gender,
                  u_phone = phone, is_superuser = False, groups = []\<rparr>
         in Inr (u, w\<lparr>users := users w @ [u], next_user_id := Suc (next_user_id w)\<rparr>)))"

text \<open>\<open>user.groups.add(Group.objects.get(name='users'))\<close>; a missing group is ignored.\<close>

definition add_users_group :: "user \<Rightarrow> world \<Rightarrow> user \<times> world" where
  "add_users_group u w =
     (if ''users'' \<in> set (auth_groups w)
      then (let u1 = u\<lparr>groups := groups u @ [''users'']\<rparr>
            in (u1, w\<lparr>users := map (\<lambda>x. if uid x = uid u then u1 else x) (users w)\<rparr>))
      else (u, w))"

text \<open>
  \<open>PatientWithUserForm.save\<close>. The account is created first; when saving the patient
  raises, the account stays in the store.
\<close>

definition PatientWithUserForm_save ::
  "date \<Rightarrow> patient_with_user_form \<Rightarrow> bool \<Rightarrow> user option \<Rightarrow> world
     \<Rightarrow> (error + patient) \<times> world" where
  "PatientWithUserForm_save today f commit created_by w =
     (case create_user (f_email f) (f_first_name f) (f_last_name f) (Some (f_birth_date f))
             (f_gender f) (f_phone f) w of
        Inl e \<Rightarrow> (Inl e, w)
      | Inr (user0, w1) \<Rightarrow>
          (case add_users_group user0 w1 of
             (user1, w2) \<Rightarrow>
               (let patient =
                  \<lparr>p_id = None, p_last_name = f_last_name f, p_first_name = f_first_name f,
                   p_middle_name = f_middle_name f, p_birth_date = DDate (f_birth_date f),
                   p_gender = f_gender f, p_phone = f_phone f, p_email = Some (f_email f),
                   p_created_by = (case created_by of Some c \<Rightarrow> uid c | None \<Rightarrow> uid user1)\<rparr>
                in if commit
                   then (case Patient_save today patient w2 of
                           Inl e \<Rightarrow> (Inl e, w2)
                         | Inr (row, w3) \<Rightarrow> (Inr row, w3))
                   else (Inr patient, w2))))"

datatype page =
    redirect_error string
  | redirect_success string
  | render string
  | uncaught error

text \<open>
  The view \<open>create_patient\<close>; \<open>post\<close> is \<open>None\<close> for a GET request. After the third
  guard the user is a moderator, so the branches of the source for other roles
  (\<open>PatientForm\<close>) cannot be reached and are not written out.
\<close>

definition create_patient ::
  "date \<Rightarrow> user option \<Rightarrow> patient_with_user_form option \<Rightarrow> world \<Rightarrow> page \<times> world" where
  "create_patient today ru post w =
     (case ru of
        None \<Rightarrow> (redirect_error ''users:login'', w)
      | Some u \<Rightarrow>
          (if is_regular_user u then (redirect_error ''medical_lab:patients_list'', w)
           else if \<not> is_moderator u then (redirect_error ''medical_lab:patients_list'', w)
           else
             (case post of
                None \<Rightarrow> (render ''medical_lab/create_patient.html'', w)
              | Some f \<Rightarrow>
                  (if PatientWithUserForm_is_valid f w
                   then
                     (case PatientWithUserForm_save today f True (Some u) w of
                        (Inl e, w1) \<Rightarrow> (uncaught e, w1)
                      | (Inr patient, w1) \<Rightarrow> (redirect_success ''medical_lab:patients_list'', w1))
                   else (render ''medical_lab/create_patient.html'', w)))))"

section \<open>Provisioning a self-service user's patient\<close>

text \<open>\<open>Patient.objects.get(created_by=user)\<close>\<close>

definition Patient_objects_get :: "nat \<Rightarrow> world \<Rightarrow> error + patient" where
  "Patient_objects_get k w =
     (case filter (\<lambda>p. p_created_by p = k) (patients w) of
        [] \<Rightarrow> Inl DoesNotExist
      | [p] \<Rightarrow> Inr p
      | p # q # ps \<Rightarrow> Inl MultipleObjectsReturned)"

text \<open>\<open>Patient.objects.create(...)\<close>: build the instance, then \<open>Patient.save\<close>.\<close>

definition Patient_objects_create :: "date \<Rightarrow> patient \<Rightarrow> world \<Rightarrow> error + patient \<times> world" where
  "Patient_objects_create today kwargs w = Patient_save today (kwargs\<lparr>p_id := None\<rparr>) w"

text \<open>Python's \<open>x or d\<close> on a string and on an optional date.\<close>

definition str_or :: "string \<Rightarrow> string \<Rightarrow> string" where
  "str_or x d = (if x = [] then d else x)"

definition birth_date_or :: "date option \<Rightarrow> string \<Rightarrow> date_attr" where
  "birth_date_or x d = (case x of Some b \<Rightarrow> DDate b | None \<Rightarrow> DStr d)"

text \<open>
  The block of \<open>create_analysis\<close> that finds or creates the patient of a regular user
  (the same block stands in \<open>AnalysisForm.__init__\<close>).
\<close>

definition get_or_create_own_patient :: "date \<Rightarrow> user \<Rightarrow> world \<Rightarrow> error + patient \<times> world" where
  "get_or_create_own_patient today u w =
     (case Patient_objects_get (uid u) w of
        Inr patient \<Rightarrow> Inr (patient, w)
      | Inl e \<Rightarrow>
          (if e = DoesNotExist
           then Patient_objects_create today
                  \<lparr>p_id = None,
                   p_last_name = str_or (u_last_name u) ''User'',
                   p_first_name = str_or (u_first_name u) ''Unknown'',
                   p_middle_name = None,
                   p_birth_date = birth_date_or (u_birth_date u) ''2000-01-01'',
                   p_gender = str_or (u_gender u) ''O'',
                   p_phone = u_phone u,
                   p_email = Some (u_email u),
                   p_created_by = uid u\<rparr> w
           else Inl e))"

text \<open>
  \<open>Patient.objects.get_or_create(created_by=user, defaults={...})\<close> of
  \<open>AnalysisViewSet.perform_create\<close>: the defaults name four fields, the others keep the
  model's defaults.
\<close>

definition Patient_objects_get_or_create ::
  "date \<Rightarrow> user \<Rightarrow> world \<Rightarrow> error + (patient \<times> bool) \<times> world" where
  "Patient_objects_get_or_create today u w =
     (case Patient_objects_get (uid u) w of
        Inr patient \<Rightarrow> Inr ((patient, False), w)
      | Inl e \<Rightarrow>
          (if e = DoesNotExist
           then
             (case Patient_objects_create today
                     \<lparr>p_id = None,
                      p_last_name = str_or (u_last_name u) ''User'',
                      p_first_name = str_or (u_first_name u) ''Unknown'',
                      p_middle_name = None,
                      p_birth_date = birth_date_or (u_birth_date u) ''2000-01-01'',
                      p_gender = str_or (u_gender u) ''O'',
                      p_phone = None,
                      p_email = None,
                      p_created_by = uid u\<rparr> w of
                Inl e1 \<Rightarrow> Inl e1
              | Inr (patient, w1) \<Rightarrow> Inr ((patient, True), w1))
           else Inl e))"

text \<open>
  \<open>AnalysisViewSet.perform_create\<close> on the serializer's validated data;
  \<open>serializer.save\<close> creates the analysis. A patient without a key cannot be referenced.
\<close>

definition perform_create ::
  "timestamp \<Rightarrow> date \<Rightarrow> user \<Rightarrow> analysis \<Rightarrow> world \<Rightarrow> (error + analysis) \<times> world" where
  "perform_create now today u validated w =
     (if is_regular_user u
      then
        (case Patient_objects_get_or_create today u w of
           Inl e \<Rightarrow> (Inl e, w)
         | Inr ((patient, created), w1) \<Rightarrow>
             (case p_id patient of
                None \<Rightarrow> (Inl ValueError, w1)
              | Some k \<Rightarrow>
                  (case Analysis_save now (validated\<lparr>a_pk := None, a_patient := k\<rparr>) w1 of
                     Inl e \<Rightarrow> (Inl e, w1)
                   | Inr (saved, w2) \<Rightarrow> (Inr saved, w2))))
      else
        (case Analysis_save now (validated\<lparr>a_pk := None\<rparr>) w of
           Inl e \<Rightarrow> (Inl e, w)
         | Inr (saved, w1) \<Rightarrow> (Inr saved, w1)))"

text \<open>The values of an \<open>AnalysisForm\<close> after field validation.\<close>

record analysis_form =
  af_patient :: nat
  af_analysis_type :: nat
  af_collection_date :: "timestamp option"
  af_notes :: string

text \<open>
  \<open>AnalysisForm.__init__\<close> for a given user: the patients the form accepts, after the
  form has found or created the patient of a regular user.
\<close>

definition AnalysisForm_init :: "date \<Rightarrow> user \<Rightarrow> world \<Rightarrow> error + patient list \<times> world" where
  "AnalysisForm_init today u w =
     (let queryset = (\<lambda>w'. if is_administrator u \<or> is_moderator u then patients w'
                            else filter (\<lambda>p. p_created_by p = uid u) (patients w'))
      in if is_regular_user u
         then (case get_or_create_own_patient today u w of
                 Inl e \<Rightarrow> Inl e
               | Inr (patient, w1) \<Rightarrow> Inr (queryset w1, w1))
         else Inr (queryset w, w))"

definition AnalysisForm_is_valid :: "analysis_form \<Rightarrow> patient list \<Rightarrow> world \<Rightarrow> bool" where
  "AnalysisForm_is_valid f queryset w =
     (list_ex (\<lambda>p. p_id p = Some (af_patient f)) queryset
      \<and> list_ex (\<lambda>t. t_id t = af_analysis_type f \<and> t_is_active t) (analysis_types w))"

text \<open>The view \<open>create_analysis\<close>; \<open>post\<close> is \<open>None\<close> for a GET request.\<close>

definition create_analysis ::
  "timestamp \<Rightarrow> date \<Rightarrow> user option \<Rightarrow> analysis_form option \<Rightarrow> world \<Rightarrow> page \<times> world" where
  "create_analysis now today ru post w =
     (case ru of
        None \<Rightarrow> (redirect_error ''users:login'', w)
      | Some u \<Rightarrow>
          (if \<not> (is_moderator u \<or> is_regular_user u)
           then (redirect_error ''medical_lab:analyses_list'', w)
           else
             (case (if is_regular_user u
                    then (case get_or_create_own_patient today u w of
                            Inl e \<Rightarrow> Inl e
                          | Inr (patient, w1) \<Rightarrow> Inr w1)
                    else Inr w) of
                Inl e \<Rightarrow> (uncaught e, w)
              | Inr w1 \<Rightarrow>
                  (case AnalysisForm_init today u w1 of
                     Inl e \<Rightarrow> (uncaught e, w1)
                   | Inr (queryset, w2) \<Rightarrow>
                       (case post of
                          None \<Rightarrow> (render ''medical_lab/create_analysis.html'', w2)
                        | Some f \<Rightarrow>
                            (if AnalysisForm_is_valid f queryset w2
                             then
                               (case Analysis_save now
                                       \<lparr>a_pk = None, a_patient = af_patient f,
                                        a_analysis_type = af_analysis_type f,
                                        a_status = ''registered'',
                                        a_collection_date = af_collection_date f,
                                        a_completion_date = None, a_result = [],
                                        a_notes = af_notes f, a_lab_technician = None\<rparr> w2 of
                                  Inl e \<Rightarrow> (uncaught e, w2)
                                | Inr (saved, w3) \<Rightarrow>
                                    (redirect_success ''medical_lab:analyses_list'', w3))
                             else (render ''medical_lab/create_analysis.html'', w2)))))))"

section \<open>Referential integrity of the store\<close>

text \<open>
  What the database guarantees for the rows the proofs about new accounts look at: the
  next account identifier is above every stored one, and every patient's creator is a
  stored account (the foreign key \<open>created_by\<close>).
\<close>

definition store_ok :: "world \<Rightarrow> bool" where
  "store_ok w =
     (list_all (\<lambda>u. uid u < next_user_id w) (users w)
      \<and> list_all (\<lambda>p. list_ex (\<lambda>u. uid u = p_created_by p) (users w)) (patients w))"

text \<open>The account that \<open>PatientWithUserForm.save\<close> creates from a form.\<close>

definition new_account :: "patient_with_user_form \<Rightarrow> world \<Rightarrow> user" where
  "new_account f w =
     \<lparr>uid = next_user_id w, u_email = f_email f, u_last_name = f_last_name f,
      u_first_name = f_first_name f, u_birth_date = Some (f_birth_date f),
      u_gender = f_gender f, u_phone = f_phone f, is_superuser = False,
      groups = (if ''users'' \<in> set (auth_groups w) then [''users''] else [])\<rparr>"

text \<open>The patient that provisioning creates for an account with the birth date \<open>b\<close>.\<close>

definition own_patient :: "user \<Rightarrow> date \<Rightarrow> world \<Rightarrow> patient" where
  "own_patient u b w =
     \<lparr>p_id = Some (next_patient_id w),
      p_last_name = str_or (u_last_name u) ''User'',
      p_first_name = str_or (u_first_name u) ''Unknown'',
      p_middle_name = None,
      p_birth_date = DDate b,
      p_gender = str_or (u_gender u) ''O'',
      p_phone = u_phone u,
      p_email = Some (u_email u),
      p_created_by = uid u\<rparr>"

section \<open>Example data\<close>

definition staff :: user where
  "staff =
     \<lparr>uid = 1, u_email = ''staff@test.ru'', u_last_name = ''Petrova'', u_first_name = ''Anna'',
      u_birth_date = None, u_gender = ''F'', u_phone = None, is_superuser = False,
      groups = [''administrators'', ''moderators'']\<rparr>"

definition admin_only :: user where
  "admin_only =
     \<lparr>uid = 2, u_email = ''admin@test.ru'', u_last_name = ''Sidorov'', u_first_name = ''Oleg'',
      u_birth_date = None, u_gender = ''M'', u_phone = None, is_superuser = True,
      groups = [''administrators'']\<rparr>"

definition self_user :: user where
  "self_user =
     \<lparr>uid = 3, u_email = ''p@test.ru'', u_last_name = ''Ivanov'', u_first_name = ''Petr'',
      u_birth_date = Some \<lparr>year = 1990, month = 1, day = 1\<rparr>, u_gender = ''M'',
      u_phone = None, is_superuser = False, groups = [''users'']\<rparr>"

definition patient_born :: "date \<Rightarrow> patient" where
  "patient_born b =
     \<lparr>p_id = Some 1, p_last_name = ''Ivanov'', p_first_name = ''Petr'', p_middle_name = None,
      p_birth_date = DDate b, p_gender = ''M'', p_phone = None,
      p_email = Some ''patient@test.ru'', p_created_by = 3\<rparr>"

definition other_patient :: patient where
  "other_patient =
     \<lparr>p_id = Some 2, p_last_name = ''Smirnova'', p_first_name = ''Olga'', p_middle_name = None,
      p_birth_date = DDate \<lparr>year = 1985, month = 6, day = 15\<rparr>, p_gender = ''F'',
      p_phone = None, p_email = None, p_created_by = 1\<rparr>"

definition blood_count :: analysis_type where
  "blood_count = \<lparr>t_id = 1, t_name = ''General Blood Count'', t_is_active = True\<rparr>"

definition analysis_of :: "nat \<Rightarrow> nat \<Rightarrow> string \<Rightarrow> timestamp option \<Rightarrow> analysis" where
  "analysis_of k p s c =
     \<lparr>a_pk = Some k, a_patient = p, a_analysis_type = 1, a_status = s,
      a_collection_date = None, a_completion_date = c, a_result = [], a_notes = [],
      a_lab_technician = None\<rparr>"

text \<open>
  A store with three accounts, two patients and two analyses; the first analysis has the
  given status and completion date.
\<close>

definition world_with :: "string \<Rightarrow> timestamp option \<Rightarrow> world" where
  "world_with s c =
     \<lparr>users = [staff, admin_only, self_user],
      auth_groups = [''administrators'', ''moderators'', ''users''],
      patients = [patient_born \<lparr>year = 1990, month = 1, day = 1\<rparr>, other_patient],
      analysis_types = [blood_count],
      analyses = [analysis_of 1 1 s c, analysis_of 2 2 ''in_progress'' None],
      next_user_id = 4, next_patient_id = 3, next_analysis_id = 3\<rparr>"

text \<open>A regular user whose profile has no birth date, and who has no patient yet.\<close>

definition new_user :: user where
  "new_user =
     \<lparr>uid = 4, u_email = ''new@test.ru'', u_last_name = [], u_first_name = [],
      u_birth_date = None, u_gender = ''O'', u_phone = None, is_superuser = False,
      groups = []\<rparr>"

definition world_new_user :: world where
  "world_new_user =
     (world_with ''registered'' None)
       \<lparr>users := [staff, admin_only, self_user, new_user], next_user_id := 5\<rparr>"

definition today0 :: date where
  "today0 = \<lparr>year = 2026, month = 11, day = 3\<rparr>"

definition old_form :: patient_with_user_form where
  "old_form =
     \<lparr>f_last_name = ''Dedov'', f_first_name = ''Ivan'', f_middle_name = None,
      f_birth_date = \<lparr>year = 1800, month = 1, day = 1\<rparr>, f_gender = ''M'', f_phone = None,
      f_email = ''dedov@test.ru'', f_password1 = ''password1'', f_password2 = ''password1''\<rparr>"

definition future_form :: patient_with_user_form where
  "future_form =
     \<lparr>f_last_name = ''Novaya'', f_first_name = ''Vera'', f_middle_name = None,
      f_birth_date = \<lparr>year = 2030, month = 1, day = 1\<rparr>, f_gender = ''F'', f_phone = None,
      f_email = ''vera@test.ru'', f_password1 = ''password1'', f_password2 = ''password1''\<rparr>"

definition good_form :: patient_with_user_form where
  "good_form =
     \<lparr>f_last_name = ''Orlova'', f_first_name = ''Nina'', f_middle_name = None,
      f_birth_date = \<lparr>year = 1980, month = 3, day = 9\<rparr>, f_gender = ''F'', f_phone = None,
      f_email = ''nina@test.ru'', f_password1 = ''password1'', f_password2 = ''password1''\<rparr>"

definition draft_analysis :: analysis where
  "draft_analysis =
     \<lparr>a_pk = None, a_patient = 1, a_analysis_type = 1, a_status = ''registered'',
      a_collection_date = None, a_completion_date = None, a_result = [], a_notes = [],
      a_lab_technician = None\<rparr>"

text \<open>The form a regular user posts to \<open>create_analysis\<close> for the own patient.\<close>

definition own_analysis_form :: analysis_form where
  "own_analysis_form =
     \<lparr>af_patient = 1, af_analysis_type = 1, af_collection_date = None, af_notes = []\<rparr>"

section \<open>Facts about the store and \<open>set_status\<close>\<close>

lemma perm_admin:
  "check_permissions (AnalysisViewSet_get_permissions ''set_status'') ru =
     (case ru of None \<Rightarrow> False | Some u \<Rightarrow> is_administrator u)"
  by (simp add: check_permissions_def AnalysisViewSet_get_permissions_def)

lemma queryset_permitted:
  "check_permissions (AnalysisViewSet_get_permissions ''set_status'') ru \<Longrightarrow>
   AnalysisViewSet_get_queryset ru w = analyses w"
  by (auto simp: perm_admin AnalysisViewSet_get_queryset_def split: option.splits)

lemma find_pk: "find (\<lambda>a. a_pk a = Some k) xs = Some a \<Longrightarrow> a_pk a = Some k"
  by (induction xs) (auto split: if_splits)

lemma find_map_same:
  "find (\<lambda>a. a_pk a = Some k) xs = Some a \<Longrightarrow> a_pk b = Some k \<Longrightarrow>
   find (\<lambda>a. a_pk a = Some k) (map (\<lambda>a. if a_pk a = Some k then b else a) xs) = Some b"
  by (induction xs) (auto split: if_splits)

lemma find_list_ex: "find P xs = Some a \<Longrightarrow> list_ex P xs"
  by (induction xs) (auto split: if_splits)

text \<open>
  A stored row that is not \<open>completed\<close> cannot be saved as \<open>completed\<close>: the receiver
  reaches the call of the missing method.
\<close>

lemma Analysis_save_raises:
  assumes old: "get_analysis k w = Some old"
    and pk: "a_pk self = Some k"
    and pos: "0 < k"
    and change: "a_status old \<noteq> ''completed''" "a_status self = ''completed''"
  shows "Analysis_save now self w = Inl AttributeError"
  using assms
  by (simp add: Analysis_save_def handle_analysis_status_change_def send_completion_email_def
      Let_def)

text \<open>Every other save of an instance that has a stored row writes the row.\<close>

lemma Analysis_save_stored:
  assumes old: "get_analysis k w = Some old"
    and pk: "a_pk self = Some k"
    and same: "a_status old = ''completed'' \<or> a_status self \<noteq> ''completed''"
  shows "Analysis_save now self w =
           Inr (stamped now self,
                w\<lparr>analyses := map (\<lambda>a. if a_pk a = Some k then stamped now self else a) (analyses w)\<rparr>)"
proof -
  have ex: "list_ex (\<lambda>a. a_pk a = Some k) (analyses w)"
    using old by (auto simp: get_analysis_def dest: find_list_ex)
  have pk': "a_pk (stamped now self) = Some k"
    using pk by (simp add: stamped_def)
  have st: "a_status (stamped now self) = a_status self"
    by (simp add: stamped_def)
  have h: "handle_analysis_status_change now (stamped now self) w = Inr (stamped now self)"
    using old pk' st same
    by (auto simp: handle_analysis_status_change_def Let_def)
  show ?thesis
    unfolding Analysis_save_def Let_def stamped_def[symmetric] h
    using ex pk' by (simp add: save_analysis_row_def)
qed

text \<open>
  A save that succeeds keeps a completion date that is set, sets a missing one to the
  current time when the status is \<open>completed\<close>, and leaves it missing otherwise.
\<close>

lemma Analysis_save_completion_date:
  assumes "Analysis_save now self w = Inr (saved, w')"
  shows "a_completion_date saved =
           (case a_completion_date self of
              Some t \<Rightarrow> Some t
            | None \<Rightarrow> if a_status self = ''completed'' then Some now else None)"
  using assms
  by (auto simp: Analysis_save_def handle_analysis_status_change_def save_analysis_row_def
      send_completion_email_def Let_def split: option.splits if_splits sum.splits)

lemma set_status_stored:
  assumes perm: "check_permissions (AnalysisViewSet_get_permissions ''set_status'') ru"
    and old: "get_analysis pk w = Some a"
    and s: "s \<in> set STATUS_CHOICES"
    and same: "a_status a = ''completed'' \<or> s \<noteq> ''completed''"
  shows "set_status now ru pk (JString s) w =
           (Response (stamped now (a\<lparr>a_status := s\<rparr>)),
            w\<lparr>analyses := map (\<lambda>r. if a_pk r = Some pk then stamped now (a\<lparr>a_status := s\<rparr>) else r)
                            (analyses w)\<rparr>)"
proof -
  have f: "find (\<lambda>a. a_pk a = Some pk) (AnalysisViewSet_get_queryset ru w) = Some a"
    using old by (simp add: queryset_permitted[OF perm] get_analysis_def)
  have pk: "a_pk (a\<lparr>a_status := s\<rparr>) = Some pk"
    using old by (auto simp: get_analysis_def dest: find_pk)
  have same': "a_status a = ''completed'' \<or> a_status (a\<lparr>a_status := s\<rparr>) \<noteq> ''completed''"
    using same by simp
  show ?thesis
    using perm s by (simp add: set_status_def f Analysis_save_stored[OF old pk same'])
qed

text \<open>
  A permitted request for \<open>completed\<close> on a stored analysis that is not \<open>completed\<close>
  ends in the exception, and the store is as before.
\<close>

lemma set_status_raises:
  assumes perm: "check_permissions (AnalysisViewSet_get_permissions ''set_status'') ru"
    and old: "get_analysis pk w = Some a"
    and pos: "0 < pk"
    and st: "a_status a \<noteq> ''completed''"
  shows "set_status now ru pk (JString ''completed'') w = (Raised AttributeError, w)"
proof -
  have f: "find (\<lambda>a. a_pk a = Some pk) (AnalysisViewSet_get_queryset ru w) = Some a"
    using old by (simp add: queryset_permitted[OF perm] get_analysis_def)
  have pk: "a_pk (a\<lparr>a_status := ''completed''\<rparr>) = Some pk"
    using old by (auto simp: get_analysis_def dest: find_pk)
  have r: "Analysis_save now (a\<lparr>a_status := ''completed''\<rparr>) w = Inl AttributeError"
    by (rule Analysis_save_raises[OF old pk pos st]) simp
  show ?thesis
    using perm by (simp add: set_status_def f r STATUS_CHOICES_def)
qed

lemma get_analysis_after:
  assumes old: "get_analysis pk w = Some a" and b: "a_pk b = Some pk"
  shows "get_analysis pk (w\<lparr>analyses := map (\<lambda>r. if a_pk r = Some pk then b else r) (analyses w)\<rparr>) = Some b"
  using old b by (simp add: get_analysis_def find_map_same)

lemma staff_permitted:
  "check_permissions (AnalysisViewSet_get_permissions ''set_status'') (Some staff)"
  by (simp add: perm_admin staff_def is_administrator_def)

lemma world_with_analysis:
  "get_analysis 1 (world_with s c) = Some (analysis_of 1 1 s c)"
  by (simp add: get_analysis_def world_with_def analysis_of_def)



lemma defined_statuses:
  "''registered'' \<in> set STATUS_CHOICES" "''in_progress'' \<in> set STATUS_CHOICES"
  "''completed'' \<in> set STATUS_CHOICES" "''cancelled'' \<in> set STATUS_CHOICES"
  by (simp_all add: STATUS_CHOICES_def)

lemma self_user_regular: "is_regular_user self_user"
  by (simp add: is_regular_user_def is_administrator_def is_moderator_def self_user_def)

section \<open>The completion date\<close>

text \<open>
  C1. The claim: the completion date is null until the first transition into
  \<open>completed\<close>, is set to that transition's timestamp, and is not changed afterwards.
  \<open>Analysis.save\<close> does stamp the date, but the receiver that runs before the row is
  written calls \<open>send_completion_email\<close>, which class \<open>Analysis\<close> does not define. A
  regular user creates an analysis through \<open>create_analysis\<close>; it is stored as
  \<open>registered\<close> with no completion date. The permitted request to set it to
  \<open>completed\<close> ends in \<open>AttributeError\<close> and the store is unchanged: the analysis is
  still \<open>registered\<close> and has no completion date.
\<close>

theorem first_completion_never_stored:
  "fst (create_analysis 5 today0 (Some self_user) (Some own_analysis_form)
          (world_with ''registered'' None))
     = redirect_success ''medical_lab:analyses_list''
   \<and> get_analysis 3
        (snd (create_analysis 5 today0 (Some self_user) (Some own_analysis_form)
                (world_with ''registered'' None)))
       = Some (analysis_of 3 1 ''registered'' None)
   \<and> set_status 8 (Some staff) 3 (JString ''completed'')
        (snd (create_analysis 5 today0 (Some self_user) (Some own_analysis_form)
                (world_with ''registered'' None)))
       = (Raised AttributeError,
          snd (create_analysis 5 today0 (Some self_user) (Some own_analysis_form)
                 (world_with ''registered'' None)))"
  by code_simp

section \<open>The completion notification\<close>

text \<open>
  C2. The claim: a change into \<open>completed\<close> emits exactly one notification addressed
  to the patient's email. The receiver attempts it with \<open>instance.send_completion_email()\<close>,
  a method that class \<open>Analysis\<close> does not have: for the registered analysis of a patient
  with the email \<open>patient@test.ru\<close>, the receiver raises \<open>AttributeError\<close>, the
  request ends in that exception, nothing is sent and the row is not written.
\<close>

theorem completion_notification_never_sent:
  "map_option p_email (get_patient 1 (world_with ''registered'' None))
     = Some (Some ''patient@test.ru'')
   \<and> handle_analysis_status_change 8
        (analysis_of 1 1 ''completed'' (Some 8)) (world_with ''registered'' None)
       = Inl AttributeError
   \<and> set_status 8 (Some staff) 1 (JString ''completed'') (world_with ''registered'' None)
       = (Raised AttributeError, world_with ''registered'' None)"
  by code_simp

section \<open>Terminal states\<close>

text \<open>
  C3, as amended. \<open>set_status\<close> has no rule for terminal states: for an analysis whose
  status is \<open>completed\<close> or \<open>cancelled\<close>, a request that passes the permission check
  with a defined status is answered with the saved analysis, and the stored status is the
  requested one. The statement leaves out the request for \<open>completed\<close> on a cancelled
  analysis.
\<close>

theorem set_status_terminal_not_enforced:
  assumes perm: "check_permissions (AnalysisViewSet_get_permissions ''set_status'') ru"
    and old: "get_analysis pk w = Some a"
    and terminal: "a_status a = ''completed'' \<or> a_status a = ''cancelled''"
    and s: "s \<in> set STATUS_CHOICES"
    and covered: "a_status a = ''completed'' \<or> s \<noteq> ''completed''"
  shows "\<exists>saved w'. set_status now ru pk (JString s) w = (Response saved, w')
           \<and> a_status saved = s
           \<and> get_analysis pk w' = Some saved"
proof -
  have pk: "a_pk (stamped now (a\<lparr>a_status := s\<rparr>)) = Some pk"
    using old by (auto simp: get_analysis_def stamped_def dest: find_pk)
  show ?thesis
    unfolding set_status_stored[OF perm old s covered]
    using get_analysis_after[OF old pk] by (simp add: stamped_def)
qed

theorem set_status_terminal_not_enforced_witness:
  "(\<exists>saved w'. set_status 9 (Some staff) 1 (JString ''in_progress'') (world_with ''completed'' (Some 8))
       = (Response saved, w')
     \<and> a_status saved = ''in_progress'' \<and> get_analysis 1 w' = Some saved)
   \<and> (\<exists>saved w'. set_status 9 (Some staff) 1 (JString ''registered'') (world_with ''cancelled'' None)
       = (Response saved, w')
     \<and> a_status saved = ''registered'' \<and> get_analysis 1 w' = Some saved)"
proof -
  have t1: "a_status (analysis_of 1 1 ''completed'' (Some 8)) = ''completed''
            \<or> a_status (analysis_of 1 1 ''completed'' (Some 8)) = ''cancelled''"
    by (simp add: analysis_of_def)
  have c1: "a_status (analysis_of 1 1 ''completed'' (Some 8)) = ''completed''
            \<or> ''in_progress'' \<noteq> ''completed''"
    by simp
  have t2: "a_status (analysis_of 1 1 ''cancelled'' None) = ''completed''
            \<or> a_status (analysis_of 1 1 ''cancelled'' None) = ''cancelled''"
    by (simp add: analysis_of_def)
  have c2: "a_status (analysis_of 1 1 ''cancelled'' None) = ''completed''
            \<or> ''registered'' \<noteq> ''completed''"
    by simp
  show ?thesis
    using set_status_terminal_not_enforced
            [OF staff_permitted world_with_analysis t1 defined_statuses(2) c1, of 9]
          set_status_terminal_not_enforced
            [OF staff_permitted world_with_analysis t2 defined_statuses(1) c2, of 9]
    by (rule conjI)
qed

text \<open>
  The claim fails on a completed analysis: the request for \<open>registered\<close> is accepted and
  the stored status changes.
\<close>

theorem terminal_status_changed_counterexample:
  "get_analysis 1 (world_with ''completed'' (Some 8)) = Some (analysis_of 1 1 ''completed'' (Some 8))
   \<and> fst (set_status 9 (Some staff) 1 (JString ''registered'') (world_with ''completed'' (Some 8)))
       = Response (analysis_of 1 1 ''registered'' (Some 8))
   \<and> get_analysis 1 (snd (set_status 9 (Some staff) 1 (JString ''registered'') (world_with ''completed'' (Some 8))))
       = Some (analysis_of 1 1 ''registered'' (Some 8))"
  by code_simp

section \<open>Undefined status values\<close>



section \<open>List scoping\<close>

text \<open>
  C5. For a regular (self-service) user, every patient in the patient list was created by
  that user, and every analysis in the analysis list belongs to a patient created by that
  user.
\<close>

theorem list_scoped_to_creator:
  assumes "is_regular_user u"
  shows "list_all (\<lambda>p. p_created_by p = uid u) (PatientViewSet_get_queryset (Some u) w) \<and>
         list_all (\<lambda>a. \<exists>p. get_patient (a_patient a) w = Some p \<and> p_created_by p = uid u)
           (AnalysisViewSet_get_queryset (Some u) w)"
  using assms
  by (auto simp: PatientViewSet_get_queryset_def AnalysisViewSet_get_queryset_def
      is_regular_user_def list_all_iff patient_created_by_is_def split: option.splits)

theorem list_scoped_to_creator_witness:
  "is_regular_user self_user
   \<and> PatientViewSet_get_queryset (Some self_user) (world_with ''registered'' None)
       = [patient_born \<lparr>year = 1990, month = 1, day = 1\<rparr>]
   \<and> AnalysisViewSet_get_queryset (Some self_user) (world_with ''registered'' None)
       = [analysis_of 1 1 ''registered'' None]
   \<and> list_all (\<lambda>p. p_created_by p = uid self_user)
       (PatientViewSet_get_queryset (Some self_user) (world_with ''registered'' None))
   \<and> list_all (\<lambda>a. \<exists>p. get_patient (a_patient a) (world_with ''registered'' None) = Some p
                    \<and> p_created_by p = uid self_user)
       (AnalysisViewSet_get_queryset (Some self_user) (world_with ''registered'' None))"
  using list_scoped_to_creator[OF self_user_regular, of "world_with ''registered'' None"]
  by (simp add: self_user_regular)
     (simp add: PatientViewSet_get_queryset_def AnalysisViewSet_get_queryset_def
        is_regular_user_def is_administrator_def is_moderator_def self_user_def world_with_def
        patient_created_by_is_def get_patient_def patient_born_def other_patient_def analysis_of_def)

section \<open>What an Administrator may do\<close>

text \<open>
  C6, as amended. For every authenticated Administrator (superuser flag or membership of
  \<open>administrators\<close>) \<open>set_status\<close> passes its permission check; creating a patient
  is allowed exactly when the actor is also a member of \<open>moderators\<close>, through the API
  (\<open>IsModerator\<close>: only moderators may create patients) and through the
  \<open>create_patient\<close> view, which sends every other actor back to the list with an error.
\<close>

theorem administrator_permissions:
  assumes "is_administrator u"
  shows "check_permissions (AnalysisViewSet_get_permissions ''set_status'') (Some u)
         \<and> check_permissions (PatientViewSet_get_permissions ''create'') (Some u) = is_moderator u
         \<and> (fst (create_patient today (Some u) post w) = redirect_error ''medical_lab:patients_list'')
             = (\<not> is_moderator u)"
proof (intro conjI)
  show "check_permissions (AnalysisViewSet_get_permissions ''set_status'') (Some u)"
    using assms by (simp add: perm_admin)
  show "check_permissions (PatientViewSet_get_permissions ''create'') (Some u) = is_moderator u"
    by (simp add: check_permissions_def PatientViewSet_get_permissions_def)
  show "(fst (create_patient today (Some u) post w) = redirect_error ''medical_lab:patients_list'')
          = (\<not> is_moderator u)"
    by (auto simp: create_patient_def is_regular_user_def
        split: option.splits sum.splits prod.splits)
qed

theorem administrator_permissions_witness:
  "is_administrator admin_only
   \<and> check_permissions (AnalysisViewSet_get_permissions ''set_status'') (Some admin_only)
   \<and> check_permissions (PatientViewSet_get_permissions ''create'') (Some admin_only) = False
   \<and> is_administrator staff
   \<and> check_permissions (PatientViewSet_get_permissions ''create'') (Some staff) = True"
  using administrator_permissions[of admin_only today0 None "world_with ''registered'' None"]
    administrator_permissions[of staff today0 None "world_with ''registered'' None"]
  by (simp add: is_administrator_def is_moderator_def admin_only_def staff_def)

text \<open>
  The claim fails for an Administrator who is not a moderator: the API refuses the create
  action and the view redirects with an error, leaving the store as it was.
\<close>

theorem administrator_cannot_create_patient_counterexample:
  "is_administrator admin_only
   \<and> \<not> check_permissions (PatientViewSet_get_permissions ''create'') (Some admin_only)
   \<and> create_patient today0 (Some admin_only) (Some old_form) (world_with ''registered'' None)
       = (redirect_error ''medical_lab:patients_list'', world_with ''registered'' None)"
  by (simp add: is_administrator_def is_moderator_def admin_only_def check_permissions_def
      PatientViewSet_get_permissions_def create_patient_def is_regular_user_def)

section \<open>Self-provisioning\<close>

text \<open>
  C7. The claim: a self-service account without a patient gets one on creating an
  analysis, with the sentinel birth date 2000-01-01 when the account has none. The code
  passes the sentinel as the string \<open>'2000-01-01'\<close>, and \<open>Patient.save\<close> compares
  the attribute with \<open>date.today()\<close>: for an account without a birth date both
  provisioning paths raise \<open>TypeError\<close> and no patient is created.
\<close>

theorem provisioning_without_birth_date_raises:
  "is_regular_user new_user
   \<and> u_birth_date new_user = None
   \<and> Patient_objects_get (uid new_user) world_new_user = Inl DoesNotExist
   \<and> create_analysis 20 today0 (Some new_user) None world_new_user
       = (uncaught TypeError, world_new_user)
   \<and> perform_create 20 today0 new_user draft_analysis world_new_user
       = (Inl TypeError, world_new_user)"
  by code_simp

section \<open>Birth-date validation on creation\<close>

text \<open>
  C8. The claim: every attempt to create or update a patient rejects a birth date in the
  future or more than 150 years back as a validation error, and stores nothing.
  \<open>PatientForm.clean_birth_date\<close> does so, but the moderator's creation form has no
  such check: a birth date of 1800-01-01 is stored, and a future birth date escapes the
  view as the \<open>ValueError\<close> of \<open>Patient.save\<close>.
\<close>

theorem old_birth_date_persisted:
  "clean_birth_date today0 (Some \<lparr>year = 1800, month = 1, day = 1\<rparr>) = Inl ValidationError
   \<and> fst (create_patient today0 (Some staff) (Some old_form) (world_with ''registered'' None))
       = redirect_success ''medical_lab:patients_list''
   \<and> map_option p_birth_date
        (get_patient 3 (snd (create_patient today0 (Some staff) (Some old_form)
                               (world_with ''registered'' None))))
       = Some (DDate \<lparr>year = 1800, month = 1, day = 1\<rparr>)
   \<and> clean_birth_date today0 (Some \<lparr>year = 2030, month = 1, day = 1\<rparr>) = Inl ValidationError
   \<and> fst (create_patient today0 (Some staff) (Some future_form) (world_with ''registered'' None))
       = uncaught ValueError"
  by code_simp

section \<open>A patient created by a moderator together with an account\<close>

lemma date_not_less_trans:
  "\<not> date_less t b \<Longrightarrow> \<not> date_less t' t \<Longrightarrow> \<not> date_less t' b"
  by (auto simp: date_less_def split: if_splits)

lemma map_replace_last:
  "list_all (\<lambda>u. uid u < k) xs \<Longrightarrow> uid u0 = k \<Longrightarrow>
   map (\<lambda>x. if uid x = k then u1 else x) (xs @ [u0]) = xs @ [u1]"
  by (induction xs) auto

lemma create_user_add_group:
  assumes ok: "list_all (\<lambda>u. uid u < next_user_id w) (users w)"
    and c: "create_user (f_email f) (f_first_name f) (f_last_name f) (Some (f_birth_date f))
              (f_gender f) (f_phone f) w = Inr (u0, w1)"
  shows "add_users_group u0 w1 =
           (new_account f w,
            w\<lparr>users := users w @ [new_account f w], next_user_id := Suc (next_user_id w)\<rparr>)"
proof -
  have u0: "u0 = \<lparr>uid = next_user_id w, u_email = f_email f, u_last_name = f_last_name f,
                  u_first_name = f_first_name f, u_birth_date = Some (f_birth_date f),
                  u_gender = f_gender f, u_phone = f_phone f, is_superuser = False, groups = []\<rparr>"
    and w1: "w1 = w\<lparr>users := users w @ [u0], next_user_id := Suc (next_user_id w)\<rparr>"
    using c by (auto simp: create_user_def Let_def split: if_splits)
  have uid0: "uid u0 = next_user_id w" by (simp add: u0)
  show ?thesis
  proof (cases "''users'' \<in> set (auth_groups w)")
    case True
    have na: "u0\<lparr>groups := groups u0 @ [''users'']\<rparr> = new_account f w"
      using True by (simp add: u0 new_account_def)
    show ?thesis
      using True map_replace_last[OF ok uid0, of "new_account f w"]
      by (simp add: add_users_group_def w1 Let_def na uid0)
  next
    case False
    have na: "u0 = new_account f w"
      using False by (simp add: u0 new_account_def)
    show ?thesis
      using False by (simp add: add_users_group_def w1 na[symmetric])
  qed
qed

lemma PatientWithUserForm_save_success:
  assumes ok: "list_all (\<lambda>u. uid u < next_user_id w) (users w)"
    and s: "PatientWithUserForm_save today f True (Some m) w = (Inr row, w')"
  shows "\<not> date_less today (f_birth_date f)
         \<and> p_id row = Some (next_patient_id w)
         \<and> p_created_by row = uid m
         \<and> users w' = users w @ [new_account f w]
         \<and> patients w' = patients w @ [row]
         \<and> next_patient_id w' = Suc (next_patient_id w)"
proof -
  obtain u0 w1 where c: "create_user (f_email f) (f_first_name f) (f_last_name f)
        (Some (f_birth_date f)) (f_gender f) (f_phone f) w = Inr (u0, w1)"
    using s by (auto simp: PatientWithUserForm_save_def split: sum.splits)
  note g = create_user_add_group[OF ok c]
  show ?thesis
    using s
    by (auto simp: PatientWithUserForm_save_def c g Let_def Patient_save_def save_patient_row_def
        split: sum.splits if_splits prod.splits)
qed

lemma provision_creates:
  assumes b: "u_birth_date u = Some b"
    and d: "\<not> date_less today b"
    and none: "filter (\<lambda>p. p_created_by p = uid u) (patients w) = []"
  shows "get_or_create_own_patient today u w =
           Inr (own_patient u b w,
                w\<lparr>patients := patients w @ [own_patient u b w],
                  next_patient_id := Suc (next_patient_id w)\<rparr>)"
  using b d none
  by (simp add: get_or_create_own_patient_def Patient_objects_get_def Patient_objects_create_def
      Patient_save_def save_patient_row_def birth_date_or_def own_patient_def Let_def)

lemma provision_finds:
  assumes one: "filter (\<lambda>p. p_created_by p = uid u) (patients w) = [p]"
  shows "get_or_create_own_patient today u w = Inr (p, w)"
  using one by (simp add: get_or_create_own_patient_def Patient_objects_get_def)

lemma create_analysis_provisions:
  assumes r: "is_regular_user u"
    and b: "u_birth_date u = Some b"
    and d: "\<not> date_less today b"
    and none: "filter (\<lambda>p. p_created_by p = uid u) (patients w) = []"
  shows "create_analysis now today (Some u) None w =
           (render ''medical_lab/create_analysis.html'',
            w\<lparr>patients := patients w @ [own_patient u b w],
              next_patient_id := Suc (next_patient_id w)\<rparr>)"
proof -
  let ?w1 = "w\<lparr>patients := patients w @ [own_patient u b w],
                next_patient_id := Suc (next_patient_id w)\<rparr>"
  have one: "filter (\<lambda>p. p_created_by p = uid u) (patients ?w1) = [own_patient u b w]"
    using none by (simp add: own_patient_def)
  have i: "AnalysisForm_init today u ?w1 =
             Inr (filter (\<lambda>p. p_created_by p = uid u) (patients ?w1), ?w1)"
    using r unfolding AnalysisForm_init_def Let_def provision_finds[OF one]
    by (simp add: is_regular_user_def)
  show ?thesis
    using r by (simp add: create_analysis_def provision_creates[OF b d none] i)
qed

lemma example_store_ok: "store_ok (world_with ''registered'' None)"
  by code_simp

lemma example_view:
  "create_patient today0 (Some staff) (Some good_form) (world_with ''registered'' None)
     = (redirect_success ''medical_lab:patients_list'',
        snd (create_patient today0 (Some staff) (Some good_form) (world_with ''registered'' None)))"
proof -
  have "fst (create_patient today0 (Some staff) (Some good_form) (world_with ''registered'' None))
          = redirect_success ''medical_lab:patients_list''"
    by code_simp
  then show ?thesis by (metis prod.collapse)
qed

text \<open>
  C9. When a moderator's \<open>create_patient\<close> request succeeds, the stored patient's
  \<open>created_by\<close> is the moderator, not the account created with it. The new account is a
  regular user with no patient of its own, and the first time it opens \<open>create_analysis\<close>
  (on that day or later) a second patient is created for it, with \<open>created_by\<close> the
  account and a key different from the first patient's. The store satisfies its foreign
  keys and the moderator is a stored account.
\<close>

theorem moderator_created_patient_owned_by_moderator:
  assumes ok: "store_ok w"
    and m: "list_ex (\<lambda>u. u = m) (users w)"
    and md: "is_moderator m"
    and view: "create_patient today (Some m) (Some f) w
                 = (redirect_success ''medical_lab:patients_list'', w')"
    and later: "\<not> date_less today' today"
  shows "\<exists>patient account own.
           patients w' = patients w @ [patient]
         \<and> p_created_by patient = uid m
         \<and> users w' = users w @ [account]
         \<and> u_email account = f_email f
         \<and> uid account \<noteq> uid m
         \<and> is_regular_user account
         \<and> Patient_objects_get (uid account) w' = Inl DoesNotExist
         \<and> patients (snd (create_analysis now today' (Some account) None w')) = patients w' @ [own]
         \<and> p_created_by own = uid account
         \<and> p_id own \<noteq> p_id patient"
proof -
  have oku: "list_all (\<lambda>u. uid u < next_user_id w) (users w)"
    and fk: "list_all (\<lambda>p. list_ex (\<lambda>u. uid u = p_created_by p) (users w)) (patients w)"
    using ok by (simp_all add: store_ok_def)
  have nr: "\<not> is_regular_user m" using md by (simp add: is_regular_user_def)
  obtain row where s: "PatientWithUserForm_save today f True (Some m) w = (Inr row, w')"
    using view md nr
    by (auto simp: create_patient_def split: if_splits prod.splits sum.splits)
  note f = PatientWithUserForm_save_success[OF oku s]
  let ?acc = "new_account f w"
  let ?own = "own_patient ?acc (f_birth_date f) w'"
  have mlt: "uid m < next_user_id w"
    using m oku by (auto simp: list_all_iff list_ex_iff)
  have old: "p_created_by p < next_user_id w" if "p \<in> set (patients w)" for p
  proof -
    from fk that obtain u where "u \<in> set (users w)" and "uid u = p_created_by p"
      by (auto simp: list_all_iff list_ex_iff)
    with oku show ?thesis by (auto simp: list_all_iff)
  qed
  have ne: "p_created_by p \<noteq> next_user_id w" if "p \<in> set (patients w)" for p
    using old[OF that] by simp
  have none: "filter (\<lambda>p. p_created_by p = uid ?acc) (patients w') = []"
    using f mlt ne by (auto simp: new_account_def filter_empty_conv)
  have reg: "is_regular_user ?acc"
    by (simp add: is_regular_user_def is_administrator_def is_moderator_def new_account_def)
  have b: "u_birth_date ?acc = Some (f_birth_date f)" by (simp add: new_account_def)
  have d: "\<not> date_less today' (f_birth_date f)"
  proof (rule date_not_less_trans)
    show "\<not> date_less today (f_birth_date f)" using f by (rule conjunct1)
    show "\<not> date_less today' today" by (rule later)
  qed
  note ca = create_analysis_provisions[OF reg b d none, of now]
  have "patients w' = patients w @ [row]" using f by simp
  moreover have "p_created_by row = uid m" using f by simp
  moreover have "users w' = users w @ [?acc]" using f by simp
  moreover have "u_email ?acc = f_email f" by (simp add: new_account_def)
  moreover have "uid ?acc \<noteq> uid m" using mlt by (simp add: new_account_def)
  moreover have "Patient_objects_get (uid ?acc) w' = Inl DoesNotExist"
    using none by (simp add: Patient_objects_get_def)
  moreover have "patients (snd (create_analysis now today' (Some ?acc) None w')) = patients w' @ [?own]"
    by (simp add: ca)
  moreover have "p_created_by ?own = uid ?acc" by (simp add: own_patient_def)
  moreover have "p_id ?own \<noteq> p_id row" using f by (simp add: own_patient_def)
  ultimately show ?thesis using reg by blast
qed

theorem moderator_created_patient_owned_by_moderator_witness:
  "\<exists>patient account own.
       patients (snd (create_patient today0 (Some staff) (Some good_form) (world_with ''registered'' None)))
         = patients (world_with ''registered'' None) @ [patient]
     \<and> p_created_by patient = uid staff
     \<and> users (snd (create_patient today0 (Some staff) (Some good_form) (world_with ''registered'' None)))
         = users (world_with ''registered'' None) @ [account]
     \<and> u_email account = f_email good_form
     \<and> uid account \<noteq> uid staff
     \<and> is_regular_user account
     \<and> Patient_objects_get (uid account)
          (snd (create_patient today0 (Some staff) (Some good_form) (world_with ''registered'' None)))
         = Inl DoesNotExist
     \<and> patients (snd (create_analysis 20 today0 (Some account) None
          (snd (create_patient today0 (Some staff) (Some good_form) (world_with ''registered'' None)))))
         = patients (snd (create_patient today0 (Some staff) (Some good_form) (world_with ''registered'' None)))
           @ [own]
     \<and> p_created_by own = uid account
     \<and> p_id own \<noteq> p_id patient"
proof -
  have m: "list_ex (\<lambda>u. u = staff) (users (world_with ''registered'' None))"
    by (simp add: world_with_def)
  have md: "is_moderator staff"
    by (simp add: is_moderator_def staff_def)
  have later: "\<not> date_less today0 today0"
    by (simp add: date_less_def)
  show ?thesis
    by (rule moderator_created_patient_owned_by_moderator
        [OF example_store_ok m md example_view later])
qed

section \<open>The age property\<close>

lemma days_in_month_same:
  "m \<noteq> 2 \<Longrightarrow> days_in_month y m = days_in_month y' m"
  by (simp add: days_in_month_def)

text \<open>
  Where this year has the birthday, the age is a non-negative number: every birth date on
  or before today other than 29 February, and 29 February in a leap year.
\<close>

lemma age_defined:
  assumes vt: "valid_date today" and vb: "valid_date b"
    and le: "\<not> date_less today b"
    and feb: "month b = 2 \<and> day b = 29 \<longrightarrow> is_leap (year today)"
    and bd: "p_birth_date p = DDate b"
  shows "\<exists>n. 0 \<le> n \<and> age today p = Inr (Some n)"
proof -
  have yt: "1 \<le> year today" "year today \<le> 9999"
    using vt by (auto simp: valid_date_def date_new_def split: if_splits)
  have mb: "1 \<le> month b" "month b \<le> 12" "1 \<le> day b" "day b \<le> days_in_month (year b) (month b)"
    using vb by (auto simp: valid_date_def date_new_def split: if_splits)
  have dim: "day b \<le> days_in_month (year today) (month b)"
  proof (cases "month b = 2")
    case False
    then show ?thesis using mb(4) days_in_month_same[of "month b" "year b" "year today"] by simp
  next
    case True
    then show ?thesis using mb(4) feb by (auto simp: days_in_month_def split: if_splits)
  qed
  have dn: "date_new (year today) (month b) (day b)
              = Inr \<lparr>year = year today, month = month b, day = day b\<rparr>"
    using yt mb dim by (simp add: date_new_def)
  show ?thesis
    using le by (auto simp: age_def bd dn Let_def date_less_def split: if_splits)
qed

text \<open>
  C10. The claim: for a stored birth date on or before today, the age property returns a
  non-negative integer for every current date. The code builds this year's birthday with
  \<open>date(today.year, birth.month, birth.day)\<close>; for a patient born on 29 February that
  date does not exist in a year that is not a leap year, and the property raises
  \<open>ValueError\<close>. Born 2000-02-29, read on 2026-11-03:
\<close>

theorem age_leap_day_birth_raises:
  "valid_date \<lparr>year = 2000, month = 2, day = 29\<rparr> \<and>
   valid_date \<lparr>year = 2026, month = 11, day = 3\<rparr> \<and>
   date_less \<lparr>year = 2000, month = 2, day = 29\<rparr> \<lparr>year = 2026, month = 11, day = 3\<rparr> \<and>
   age \<lparr>year = 2026, month = 11, day = 3\<rparr>
       (patient_born \<lparr>year = 2000, month = 2, day = 29\<rparr>) = Inl ValueError"
  by (simp add: valid_date_def date_new_def days_in_month_def is_leap_def date_less_def
      age_def patient_born_def)


end
